theory Spec2Isabelle
  imports Complex_Main "HOL-Library.Char_ord" "HOL-Library.List_Lexorder" "HOL-Library.Multiset"
begin

section \<open>JavaScript values\<close>

text \<open>
  The normalisation core of the dashboard (the adapter registry, the two adapters and
  the formatter utilities) is embedded function by function.  A payload is a parsed JSON
  value; \<open>undefined\<close> is added because the sources test for it.  A string is a list of
  code units (\<open>char\<close>, so the strings covered are those whose code units are below
  256), compared by code unit as the default \<open>Array.prototype.sort\<close> does.  An object
  is the list of its own enumerable properties in the order in which \<open>Object.keys\<close>
  and \<open>for ... in\<close> report them, each key once; a property is looked up with
  \<open>map_of\<close>.

  A Number is an IEEE double: \<open>Fin r\<close> is the finite double of value \<open>r\<close> (\<open>Fin 0\<close>
  is \<open>+0\<close>), \<open>NegZero\<close> is \<open>-0\<close>.
\<close>

datatype jsnum = NaN | PosInf | NegInf | NegZero | Fin rat

datatype json =
    JNull
  | JUndefined
  | JBool bool
  | JNum jsnum
  | JStr string
  | JArr "json list"
  | JObj "(string \<times> json) list"

text \<open>
  Property access also reaches the built-in prototype objects.  A value read from
  one is either a built-in function (\<open>BuiltinFn name\<close>) or, through the \<open>__proto__\<close>
  accessor, a prototype object itself.
\<close>

datatype proto = ObjectProto | ArrayProto

datatype val = JSON json | BuiltinFn string | ProtoObj proto

datatype error = TypeError

definition numTruthy :: "jsnum \<Rightarrow> bool" where
  "numTruthy x = (x \<noteq> NaN \<and> x \<noteq> NegZero \<and> x \<noteq> Fin 0)"

text \<open>\<open>ToBoolean\<close>: what \<open>!v\<close>, \<open>v && ...\<close> and \<open>v || ...\<close> test.\<close>

fun truthy :: "json \<Rightarrow> bool" where
  "truthy JNull = False"
| "truthy JUndefined = False"
| "truthy (JBool b) = b"
| "truthy (JNum x) = numTruthy x"
| "truthy (JStr s) = (s \<noteq> [])"
| "truthy (JArr xs) = True"
| "truthy (JObj kvs) = True"

fun truthyVal :: "val \<Rightarrow> bool" where
  "truthyVal (JSON j) = truthy j"
| "truthyVal (BuiltinFn f) = True"
| "truthyVal (ProtoObj p) = True"

text \<open>\<open>typeof v === "object"\<close>; it holds of \<open>null\<close> too.\<close>

fun typeofObject :: "json \<Rightarrow> bool" where
  "typeofObject JNull = True"
| "typeofObject (JArr xs) = True"
| "typeofObject (JObj kvs) = True"
| "typeofObject j = False"

subsection \<open>Decimal strings and array indices\<close>

definition isDigit :: "char \<Rightarrow> bool" where
  "isDigit c = (c \<in> set ''0123456789'')"

definition digitVal :: "char \<Rightarrow> nat" where
  "digitVal c = of_char c - 48"

text \<open>The value of a string of decimal digits, most significant digit first.\<close>

definition natOfDecimal :: "string \<Rightarrow> nat" where
  "natOfDecimal ds = foldl (\<lambda>n c. 10 * n + digitVal c) 0 ds"

function decimal :: "nat \<Rightarrow> string" where
  "decimal n = (if n < 10 then [char_of (48 + n)] else decimal (n div 10) @ [char_of (48 + n mod 10)])"
  by pat_completeness auto
termination
  by (relation "measure id") auto

text \<open>
  A canonical array index: the decimal string of a natural number, without a leading
  zero.
\<close>

definition arrayIndex :: "string \<Rightarrow> nat option" where
  "arrayIndex k =
     (if k \<noteq> [] \<and> list_all isDigit k \<and> (hd k \<noteq> CHR ''0'' \<or> length k = 1)
      then Some (natOfDecimal k) else None)"

definition indexKeys :: "nat \<Rightarrow> string list" where
  "indexKeys n = map decimal [0..<n]"

subsection \<open>Own properties\<close>

text \<open>
  \<open>Object.keys(v)\<close>: the own enumerable string keys.  It throws a \<open>TypeError\<close> on
  \<open>null\<close> and \<open>undefined\<close>; a string or an array has its indices, a number or a boolean
  has none.
\<close>

fun objectKeys :: "json \<Rightarrow> error + string list" where
  "objectKeys JNull = Inl TypeError"
| "objectKeys JUndefined = Inl TypeError"
| "objectKeys (JBool b) = Inr []"
| "objectKeys (JNum x) = Inr []"
| "objectKeys (JStr s) = Inr (indexKeys (length s))"
| "objectKeys (JArr xs) = Inr (indexKeys (length xs))"
| "objectKeys (JObj kvs) = Inr (map fst kvs)"

text \<open>The own property \<open>v[k]\<close> of a JSON value, enumerable or not (\<open>length\<close>).\<close>

definition elemAt :: "'a list \<Rightarrow> string \<Rightarrow> 'a option" where
  "elemAt xs k =
     (case arrayIndex k of
        Some i \<Rightarrow> (if i < length xs then Some (xs ! i) else None)
      | None \<Rightarrow> None)"

definition lengthNum :: "'a list \<Rightarrow> json" where
  "lengthNum xs = JNum (Fin (of_nat (length xs)))"

fun ownProp :: "json \<Rightarrow> string \<Rightarrow> json option" where
  "ownProp (JObj kvs) k = map_of kvs k"
| "ownProp (JArr xs) k =
     (case elemAt xs k of
        Some x \<Rightarrow> Some x
      | None \<Rightarrow> (if k = ''length'' then Some (lengthNum xs) else None))"
| "ownProp (JStr s) k =
     (case elemAt s k of
        Some c \<Rightarrow> Some (JStr [c])
      | None \<Rightarrow> (if k = ''length'' then Some (lengthNum s) else None))"
| "ownProp j k = None"

subsection \<open>Objects and their prototype chain\<close>

text \<open>
  The property names of \<open>Object.prototype\<close> (ECMAScript, with Annex B) and of
  \<open>Array.prototype\<close> (ECMAScript 2023).  All of them hold functions, except the
  accessor \<open>__proto__\<close> and the \<open>length\<close> of \<open>Array.prototype\<close>.
\<close>

definition objectPrototype :: "string list" where
  "objectPrototype =
     [''constructor'', ''hasOwnProperty'', ''isPrototypeOf'', ''propertyIsEnumerable'',
      ''toLocaleString'', ''toString'', ''valueOf'', ''__proto__'', ''__defineGetter__'',
      ''__defineSetter__'', ''__lookupGetter__'', ''__lookupSetter__'']"

definition arrayPrototype :: "string list" where
  "arrayPrototype =
     [''at'', ''concat'', ''constructor'', ''copyWithin'', ''entries'', ''every'', ''fill'',
      ''filter'', ''find'', ''findIndex'', ''findLast'', ''findLastIndex'', ''flat'',
      ''flatMap'', ''forEach'', ''includes'', ''indexOf'', ''join'', ''keys'', ''lastIndexOf'',
      ''map'', ''pop'', ''push'', ''reduce'', ''reduceRight'', ''reverse'', ''shift'',
      ''slice'', ''some'', ''sort'', ''splice'', ''toLocaleString'', ''toReversed'',
      ''toSorted'', ''toSpliced'', ''toString'', ''unshift'', ''values'', ''with'']"

text \<open>
  The values for which \<open>typeof v === "object"\<close> holds and that are not \<open>null\<close>: a
  record, an array, or a prototype object.
\<close>

datatype objref = ORecord "(string \<times> json) list" | OArray "json list" | OProto proto

fun asObject :: "val \<Rightarrow> objref option" where
  "asObject (JSON (JObj kvs)) = Some (ORecord kvs)"
| "asObject (JSON (JArr xs)) = Some (OArray xs)"
| "asObject (ProtoObj p) = Some (OProto p)"
| "asObject v = None"

text \<open>
  A property found on \<open>Object.prototype\<close>, read on behalf of a receiver whose
  prototype is \<open>parent\<close>: the accessor \<open>__proto__\<close> answers with that prototype.
\<close>

definition fromObjectPrototype :: "val \<Rightarrow> string \<Rightarrow> val" where
  "fromObjectPrototype parent k =
     (if k = ''__proto__'' then parent
      else if k \<in> set objectPrototype then BuiltinFn k
      else JSON JUndefined)"

definition fromArrayPrototype :: "val \<Rightarrow> string \<Rightarrow> val" where
  "fromArrayPrototype parent k =
     (if k \<in> set arrayPrototype then BuiltinFn k else fromObjectPrototype parent k)"

text \<open>\<open>o[k]\<close> for an object \<open>o\<close>: own properties first, then the prototype chain.\<close>

fun getMember :: "objref \<Rightarrow> string \<Rightarrow> val" where
  "getMember (ORecord kvs) k =
     (case map_of kvs k of
        Some v \<Rightarrow> JSON v
      | None \<Rightarrow> fromObjectPrototype (ProtoObj ObjectProto) k)"
| "getMember (OArray xs) k =
     (case ownProp (JArr xs) k of
        Some v \<Rightarrow> JSON v
      | None \<Rightarrow> fromArrayPrototype (ProtoObj ArrayProto) k)"
| "getMember (OProto ObjectProto) k = fromObjectPrototype (JSON JNull) k"
| "getMember (OProto ArrayProto) k =
     (if k = ''length'' then JSON (JNum (Fin 0))
      else fromArrayPrototype (ProtoObj ObjectProto) k)"

text \<open>\<open>k in o\<close>: the property exists, own or inherited, whatever its value.\<close>

fun hasProperty :: "objref \<Rightarrow> string \<Rightarrow> bool" where
  "hasProperty (ORecord kvs) k = (k \<in> fst ` set kvs \<or> k \<in> set objectPrototype)"
| "hasProperty (OArray xs) k =
     (ownProp (JArr xs) k \<noteq> None \<or> k \<in> set arrayPrototype \<or> k \<in> set objectPrototype)"
| "hasProperty (OProto ObjectProto) k = (k \<in> set objectPrototype)"
| "hasProperty (OProto ArrayProto) k =
     (k = ''length'' \<or> k \<in> set arrayPrototype \<or> k \<in> set objectPrototype)"

text \<open>\<open>s.split(".")\<close>: the pieces between the separators; never the empty list.\<close>

fun splitOn :: "char \<Rightarrow> string \<Rightarrow> string list" where
  "splitOn c [] = [[]]"
| "splitOn c (x # xs) =
     (if x = c then [] # splitOn c xs
      else (case splitOn c xs of
              w # ws \<Rightarrow> (x # w) # ws
            | [] \<Rightarrow> [[x]]))"

section \<open>The mapper contract (\<open>utils/mappers/types.ts\<close>)\<close>

text \<open>
  \<open>MapperConfig\<close>: both fields are optional, and so is the configuration itself.
  \<open>fieldMapping\<close> is a \<open>Record<string, string>\<close>.
\<close>

record mapper_config =
  fieldMapping :: "(string \<times> string) list option"
  rootPath :: "string option"

text \<open>\<open>config?.rootPath\<close> and \<open>config?.fieldMapping?.[role]\<close>; \<open>None\<close> is \<open>undefined\<close>.\<close>

definition configRootPath :: "mapper_config option \<Rightarrow> string option" where
  "configRootPath config = (case config of None \<Rightarrow> None | Some c \<Rightarrow> rootPath c)"

definition configField :: "mapper_config option \<Rightarrow> string \<Rightarrow> string option" where
  "configField config role =
     (case config of
        None \<Rightarrow> None
      | Some c \<Rightarrow> (case fieldMapping c of None \<Rightarrow> None | Some fm \<Rightarrow> map_of fm role))"

text \<open>\<open>s || d\<close> for an optional string \<open>s\<close>: the empty string is falsy.\<close>

definition orElse :: "string option \<Rightarrow> string \<Rightarrow> string" where
  "orElse s d = (case s of None \<Rightarrow> d | Some x \<Rightarrow> (if x \<noteq> [] then x else d))"

text \<open>
  \<open>StandardizedData\<close>, a tagged union.  A table row is either an element of the
  payload array, unchanged, or a \<open>{Key, Value}\<close> pair of the key-value table, whose
  value is the entry itself or \<open>JSON.stringify\<close> of it (kept symbolic).
\<close>

datatype dataset = Dataset string "jsnum list"

datatype cell = Plain json | Stringified json

datatype row = Verbatim json | KeyValue string cell

datatype change_type = Positive | Negative | Neutral

datatype standardized_data =
    Chart "string list" "dataset list"
  | Table "string list" "row list"
  | Metric json val "jsnum option" "change_type option"

section \<open>The generic adapter (\<open>GenericJSONAdapter.ts\<close>)\<close>

text \<open>
  The loop over the parts of \<open>rootPath\<close>; \<open>None\<close> is its \<open>return null\<close>.  A part is
  followed when the current value is a non-null object and the member is not
  \<open>undefined\<close>.
\<close>

fun navigateRoot :: "val \<Rightarrow> string list \<Rightarrow> val option" where
  "navigateRoot targetData [] = Some targetData"
| "navigateRoot targetData (part # parts) =
     (case asObject targetData of
        None \<Rightarrow> None
      | Some ob \<Rightarrow>
          (if getMember ob part \<noteq> JSON JUndefined
           then navigateRoot (getMember ob part) parts
           else None))"

definition resolveRoot :: "json \<Rightarrow> mapper_config option \<Rightarrow> val option" where
  "resolveRoot data config =
     (case configRootPath config of
        None \<Rightarrow> Some (JSON data)
      | Some p \<Rightarrow>
          (if p \<noteq> [] then navigateRoot (JSON data) (splitOn CHR ''.'' p)
           else Some (JSON data)))"

text \<open>\<open>Array.isArray\<close> with the elements; \<open>Array.prototype\<close> is an empty array.\<close>

fun arrayElems :: "val \<Rightarrow> json list option" where
  "arrayElems (JSON (JArr xs)) = Some xs"
| "arrayElems (ProtoObj ArrayProto) = Some []"
| "arrayElems v = None"

text \<open>\<open>Object.entries\<close> of a non-array object; a prototype object has none.\<close>

fun objectEntries :: "objref \<Rightarrow> (string \<times> json) list" where
  "objectEntries (ORecord kvs) = kvs"
| "objectEntries (OArray xs) = zip (indexKeys (length xs)) xs"
| "objectEntries (OProto p) = []"

definition keyValueRow :: "string \<times> json \<Rightarrow> row" where
  "keyValueRow e =
     KeyValue (fst e) (if typeofObject (snd e) then Stringified (snd e) else Plain (snd e))"

text \<open>The default of the object branch: a table of key-value pairs.\<close>

definition keyValueTable :: "objref \<Rightarrow> standardized_data" where
  "keyValueTable ob = Table [''Key'', ''Value''] (map keyValueRow (objectEntries ob))"

text \<open>
  The part of \<open>transform\<close> after the root path: an array gives a table, any other
  non-null object gives a metric when \<open>config?.fieldMapping?.value\<close> is truthy and the
  key-value table otherwise, anything else gives \<open>null\<close>.
\<close>

definition fromTarget :: "val \<Rightarrow> mapper_config option \<Rightarrow> error + standardized_data option" where
  "fromTarget targetData config =
     (case arrayElems targetData of
        Some [] \<Rightarrow> Inr (Some (Table [] []))
      | Some (x # xs) \<Rightarrow>
          (case objectKeys x of
             Inl e \<Rightarrow> Inl e
           | Inr headers \<Rightarrow> Inr (Some (Table headers (map Verbatim (x # xs)))))
      | None \<Rightarrow>
          (case asObject targetData of
             Some ob \<Rightarrow>
               (case configField config ''value'' of
                  Some field \<Rightarrow>
                    (if field \<noteq> []
                     then Inr (Some (Metric (JStr (orElse (configField config ''label'') ''Value''))
                                       (getMember ob field) None None))
                     else Inr (Some (keyValueTable ob)))
                | None \<Rightarrow> Inr (Some (keyValueTable ob)))
           | None \<Rightarrow> Inr None))"

definition genericTransform :: "json \<Rightarrow> mapper_config option \<Rightarrow> error + standardized_data option" where
  "genericTransform data config =
     (if \<not> truthy data then Inr None
      else (case resolveRoot data config of
              None \<Rightarrow> Inr None
            | Some targetData \<Rightarrow> fromTarget targetData config))"

section \<open>Numbers from strings\<close>

text \<open>
  \<open>parseFloat\<close> and \<open>parseInt\<close> produce the double nearest to the decimal value
  they read (round to nearest, ties to even; overflow gives \<open>Infinity\<close>).  The value
  read is a fraction \<open>a / b\<close> of natural numbers.
\<close>

function bitLength :: "nat \<Rightarrow> nat" where
  "bitLength n = (if n = 0 then 0 else Suc (bitLength (n div 2)))"
  by pat_completeness auto
termination
  by (relation "measure id") auto

text \<open>The binary exponent \<open>e\<close> of a positive fraction: \<open>2^e \<le> a / b < 2^(e + 1)\<close>.\<close>

definition binExponent :: "nat \<Rightarrow> nat \<Rightarrow> int" where
  "binExponent a b =
     (let e0 = int (bitLength a) - int (bitLength b)
      in if (if 0 \<le> e0 then 2 ^ nat e0 * b \<le> a else b \<le> a * 2 ^ nat (- e0))
         then e0 else e0 - 1)"

definition roundHalfEven :: "nat \<Rightarrow> nat \<Rightarrow> nat" where
  "roundHalfEven num den =
     (let q = num div den; r = num mod den
      in if 2 * r < den then q
         else if den < 2 * r then q + 1
         else if even q then q else q + 1)"

text \<open>
  The double nearest to \<open>a / b\<close>: a multiple \<open>m * 2^p\<close> of the unit in the last
  place, which is \<open>2^(e - 52)\<close> for a normal number and \<open>2^(-1074)\<close> below.
\<close>

definition toDouble :: "nat \<Rightarrow> nat \<Rightarrow> jsnum" where
  "toDouble a b =
     (if a = 0 then Fin 0
      else
        (let p = max (binExponent a b) (- 1022) - 52
         in if 0 \<le> p
            then (let m = roundHalfEven a (b * 2 ^ nat p)
                  in if 2 ^ 1024 \<le> m * 2 ^ nat p then PosInf
                     else Fin (of_nat (m * 2 ^ nat p)))
            else Fin (of_nat (roundHalfEven (a * 2 ^ nat (- p)) b) / of_nat (2 ^ nat (- p)))))"

fun negateNum :: "jsnum \<Rightarrow> jsnum" where
  "negateNum NaN = NaN"
| "negateNum PosInf = NegInf"
| "negateNum NegInf = PosInf"
| "negateNum NegZero = Fin 0"
| "negateNum (Fin r) = (if r = 0 then NegZero else Fin (- r))"

text \<open>The double of \<open>\<plusminus> m * 10^x\<close>.\<close>

definition decimalToDouble :: "bool \<Rightarrow> nat \<Rightarrow> int \<Rightarrow> jsnum" where
  "decimalToDouble neg m x =
     (let d = (if 0 \<le> x then toDouble (m * 10 ^ nat x) 1 else toDouble m (10 ^ nat (- x)))
      in if neg then negateNum d else d)"

definition isWhiteSpace :: "char \<Rightarrow> bool" where
  "isWhiteSpace c = (of_char c \<in> {9, 10, 11, 12, 13, 32, 160 :: nat})"

definition startsWith :: "string \<Rightarrow> string \<Rightarrow> bool" where
  "startsWith s p = (take (length p) s = p)"

text \<open>An optional sign: whether it is a minus, and the rest.\<close>

fun optSign :: "string \<Rightarrow> bool \<times> string" where
  "optSign [] = (False, [])"
| "optSign (c # cs) =
     (if c = CHR ''-'' then (True, cs)
      else if c = CHR ''+'' then (False, cs)
      else (False, c # cs))"

text \<open>
  The exponent part \<open>e\<close> or \<open>E\<close>, optional sign, at least one digit; anything
  else there is not part of the number and counts as exponent 0.
\<close>

fun exponentPart :: "string \<Rightarrow> int" where
  "exponentPart [] = 0"
| "exponentPart (c # cs) =
     (if c = CHR ''e'' \<or> c = CHR ''E''
      then (let ds = takeWhile isDigit (snd (optSign cs))
            in if ds = [] then 0
               else if fst (optSign cs) then - int (natOfDecimal ds)
               else int (natOfDecimal ds))
      else 0)"

text \<open>The fraction digits after a decimal point, and what follows them.\<close>

fun fractionPart :: "string \<Rightarrow> string \<times> string" where
  "fractionPart [] = ([], [])"
| "fractionPart (c # cs) =
     (if c = CHR ''.'' then (takeWhile isDigit cs, dropWhile isDigit cs)
      else ([], c # cs))"

text \<open>
  \<open>parseFloat(s)\<close> for a string: leading white space is skipped, the longest prefix
  that is a decimal literal is read, and \<open>NaN\<close> is returned when there is none.
\<close>

definition parseFloat :: "string \<Rightarrow> jsnum" where
  "parseFloat s =
     (let t = optSign (dropWhile isWhiteSpace s);
          neg = fst t;
          u = snd t
      in if startsWith u ''Infinity'' then (if neg then NegInf else PosInf)
         else
           (let ip = takeWhile isDigit u;
                f = fractionPart (dropWhile isDigit u);
                fp = fst f
            in if ip = [] \<and> fp = [] then NaN
               else decimalToDouble neg (natOfDecimal (ip @ fp))
                      (exponentPart (snd f) - int (length fp))))"

text \<open>
  \<open>parseFloat(v)\<close> for any value converts \<open>v\<close> to a string first.  That conversion
  throws a \<open>TypeError\<close> on an object with an own \<open>toString\<close> property (no JSON value
  is callable, and the inherited \<open>valueOf\<close> returns the object), also inside an array,
  whose string is the join of its elements.
\<close>

fun toStringThrows :: "json \<Rightarrow> bool" where
  "toStringThrows (JObj kvs) = (''toString'' \<in> fst ` set kvs)"
| "toStringThrows (JArr xs) = (\<exists>x \<in> set xs. toStringThrows x)"
| "toStringThrows j = False"

text \<open>
  The number at the start of \<open>String(v)\<close>.  A number prints so that it reads back as
  itself (\<open>-0\<close> prints as \<open>0\<close>); a boolean, \<open>null\<close>, \<open>undefined\<close> and
  \<open>[object Object]\<close> start with no number; an array starts with its first element
  (the empty string for \<open>null\<close> and \<open>undefined\<close>), and the comma after it ends any
  number.
\<close>

fun numberOfString :: "json \<Rightarrow> jsnum" where
  "numberOfString (JStr s) = parseFloat s"
| "numberOfString (JNum x) = (if x = NegZero then Fin 0 else x)"
| "numberOfString (JArr (x # xs)) = numberOfString x"
| "numberOfString j = NaN"

definition parseFloatOf :: "json \<Rightarrow> error + jsnum" where
  "parseFloatOf v = (if toStringThrows v then Inl TypeError else Inr (numberOfString v))"

text \<open>
  \<open>parseInt(ds)\<close> for a non-empty string of decimal digits (exact up to twenty
  significant digits, which is where an implementation may start to approximate).
\<close>

definition parseIntDigits :: "string \<Rightarrow> jsnum" where
  "parseIntDigits ds = toDouble (natOfDecimal ds) 1"

text \<open>\<open>x >= 0\<close>.\<close>

fun geZero :: "jsnum \<Rightarrow> bool" where
  "geZero NaN = False"
| "geZero PosInf = True"
| "geZero NegInf = False"
| "geZero NegZero = True"
| "geZero (Fin r) = (0 \<le> r)"

section \<open>The Alpha Vantage adapter (\<open>adapters/AlphaVantageAdapter\<close>)\<close>

text \<open>\<open>s.includes(sub)\<close>: \<open>sub\<close> occurs in \<open>s\<close>, case-sensitively.\<close>

fun includesStr :: "string \<Rightarrow> string \<Rightarrow> bool" where
  "includesStr [] sub = (sub = [])"
| "includesStr (c # cs) sub = (startsWith (c # cs) sub \<or> includesStr cs sub)"

definition isTimeSeriesKey :: "string \<Rightarrow> bool" where
  "isTimeSeriesKey k =
     (includesStr k ''Time Series'' \<or> includesStr k ''Daily'' \<or> includesStr k ''Weekly''
      \<or> includesStr k ''Monthly'')"

text \<open>
  \<open>v[k]\<close> for a key \<open>k\<close> that no built-in prototype defines: the own property, or
  \<open>undefined\<close>.  The adapter reads the payload under a key that is one of its own keys
  and under the literal keys \<open>Global Quote\<close>, \<open>01. symbol\<close>, \<open>05. price\<close> and
  \<open>09. change\<close>.
\<close>

definition ownOrUndefined :: "json \<Rightarrow> string \<Rightarrow> json" where
  "ownOrUndefined v k = (case ownProp v k of Some x \<Rightarrow> x | None \<Rightarrow> JUndefined)"

text \<open>
  One point of the chart: \<open>timeSeries[date]?.[targetField]\<close>, parsed when it is a
  string and 0 otherwise.  Only an own property can be a string (an inherited one is a
  function or a prototype object), and nothing is read from \<open>null\<close> or \<open>undefined\<close>.
\<close>

definition chartValue :: "json \<Rightarrow> string \<Rightarrow> string \<Rightarrow> jsnum" where
  "chartValue timeSeries targetField date =
     (case ownProp (ownOrUndefined timeSeries date) targetField of
        Some (JStr val) \<Rightarrow> parseFloat val
      | _ \<Rightarrow> Fin 0)"

text \<open>\<open>v || d\<close> on values.\<close>

definition orDefault :: "json \<Rightarrow> json \<Rightarrow> json" where
  "orDefault v d = (if truthy v then v else d)"

text \<open>The metric built from a truthy \<open>Global Quote\<close> entry.\<close>

definition quoteMetric :: "json \<Rightarrow> error + standardized_data option" where
  "quoteMetric quote =
     (case parseFloatOf (orDefault (ownOrUndefined quote ''05. price'') (JStr ''0'')) of
        Inl e \<Rightarrow> Inl e
      | Inr price \<Rightarrow>
          (case parseFloatOf (orDefault (ownOrUndefined quote ''09. change'') (JStr ''0'')) of
             Inl e \<Rightarrow> Inl e
           | Inr change \<Rightarrow>
               Inr (Some (Metric (orDefault (ownOrUndefined quote ''01. symbol'') (JStr ''Unknown''))
                            (JSON (JNum price))
                            (Some change)
                            (Some (if geZero change then Positive else Negative))))))"

text \<open>
  \<open>transform\<close>.  \<open>find\<close> gives the first own key that includes one of the four
  substrings; such a key is not empty, so the test \<open>if (timeSeriesKey)\<close> succeeds
  exactly when one was found.  The dates are sorted by the default comparison of
  \<open>sort()\<close>, the order of strings by code unit.
\<close>

definition alphaVantageTransform ::
    "json \<Rightarrow> mapper_config option \<Rightarrow> error + standardized_data option" where
  "alphaVantageTransform data config =
     (if \<not> truthy data \<or> \<not> typeofObject data then Inr None
      else
        (case objectKeys data of
           Inl e \<Rightarrow> Inl e
         | Inr keys \<Rightarrow>
             (case find isTimeSeriesKey keys of
                Some timeSeriesKey \<Rightarrow>
                  (case objectKeys (ownOrUndefined data timeSeriesKey) of
                     Inl e \<Rightarrow> Inl e
                   | Inr ks \<Rightarrow>
                       (let timeSeries = ownOrUndefined data timeSeriesKey;
                            dates = sort ks;
                            targetField = orElse (configField config ''value'') ''4. close''
                        in Inr (Some (Chart dates
                              [Dataset targetField (map (chartValue timeSeries targetField) dates)]))))
              | None \<Rightarrow>
                  (if truthy (ownOrUndefined data ''Global Quote'')
                   then quoteMetric (ownOrUndefined data ''Global Quote'')
                   else Inr None))))"

section \<open>The adapter registry (\<open>utils/mappers/index\<close>)\<close>

datatype adapter = AlphaVantageAdapter | GenericJSONAdapter

fun adapterId :: "adapter \<Rightarrow> string" where
  "adapterId AlphaVantageAdapter = ''alpha-vantage''"
| "adapterId GenericJSONAdapter = ''generic-json''"

fun transform :: "adapter \<Rightarrow> json \<Rightarrow> mapper_config option \<Rightarrow> error + standardized_data option" where
  "transform AlphaVantageAdapter = alphaVantageTransform"
| "transform GenericJSONAdapter = genericTransform"

definition mappers :: "(string \<times> adapter) list" where
  "mappers =
     [(adapterId AlphaVantageAdapter, AlphaVantageAdapter),
      (adapterId GenericJSONAdapter, GenericJSONAdapter)]"

text \<open>
  \<open>getMapper\<close> returns \<open>mappers[id] || GenericJSONAdapter\<close>.  \<open>mappers\<close> is an
  object literal, so \<open>mappers[id]\<close> is the adapter registered under \<open>id\<close>, or else
  what \<open>Object.prototype\<close> holds under that name, or else \<open>undefined\<close>.  What the
  prototype holds is truthy and is no adapter.
\<close>

datatype mapper_result = Adapter adapter | NotAnAdapter val

definition getMapper :: "string \<Rightarrow> mapper_result" where
  "getMapper id' =
     (case map_of mappers id' of
        Some a \<Rightarrow> Adapter a
      | None \<Rightarrow>
          (if truthyVal (fromObjectPrototype (ProtoObj ObjectProto) id')
           then NotAnAdapter (fromObjectPrototype (ProtoObj ObjectProto) id')
           else Adapter GenericJSONAdapter))"

section \<open>The formatter utilities (\<open>utils/formatters\<close>)\<close>

subsection \<open>\<open>extractData\<close>\<close>

text \<open>
  The loop over the keys of the path.  A key is followed when the current value is
  truthy, \<open>typeof\<close> gives \<open>"object"\<close> and \<open>key in result\<close> holds; otherwise the
  function returns \<open>null\<close>.  \<open>in\<close> is applied to objects only, so nothing here can
  throw.
\<close>

fun walkPath :: "val \<Rightarrow> string list \<Rightarrow> val" where
  "walkPath result [] = result"
| "walkPath result (key # keys) =
     (if truthyVal result
      then (case asObject result of
              Some ob \<Rightarrow>
                (if hasProperty ob key then walkPath (getMember ob key) keys else JSON JNull)
            | None \<Rightarrow> JSON JNull)
      else JSON JNull)"

text \<open>\<open>path\<close> is optional; \<open>!path\<close> holds of \<open>undefined\<close> and of the empty string.\<close>

definition extractData :: "json \<Rightarrow> string option \<Rightarrow> val" where
  "extractData data path =
     (if \<not> truthy data then JSON JNull
      else (case path of
              None \<Rightarrow> JSON data
            | Some p \<Rightarrow>
                (if p = [] then JSON data else walkPath (JSON data) (splitOn CHR ''.'' p))))"

subsection \<open>Patterns\<close>

text \<open>
  The regular expressions are ASCII literals with the flag \<open>i\<close>: a character of the
  key matches a character of the pattern when both have the same ASCII upper case.
\<close>

definition asciiUpper :: "char \<Rightarrow> char" where
  "asciiUpper c = (if CHR ''a'' \<le> c \<and> c \<le> CHR ''z'' then char_of (of_char c - (32 :: nat)) else c)"

fun prefixCI :: "string \<Rightarrow> string \<Rightarrow> bool" where
  "prefixCI s [] = True"
| "prefixCI [] (p # ps) = False"
| "prefixCI (c # cs) (p # ps) = (asciiUpper c = asciiUpper p \<and> prefixCI cs ps)"

text \<open>A pattern without \<open>^\<close> is tried at every position of the key.\<close>

fun anywhere :: "(string \<Rightarrow> bool) \<Rightarrow> string \<Rightarrow> bool" where
  "anywhere P [] = P []"
| "anywhere P (c # cs) = (P (c # cs) \<or> anywhere P cs)"

definition containsCI :: "string \<Rightarrow> string \<Rightarrow> bool" where
  "containsCI key pat = anywhere (\<lambda>s. prefixCI s pat) key"

text \<open>\<open>.\<close> matches any character but a line terminator.\<close>

definition isLineTerminator :: "char \<Rightarrow> bool" where
  "isLineTerminator c = (of_char c \<in> {10, 13 :: nat})"

text \<open>\<open>first.?second\<close>, tried at the start of \<open>s\<close>.\<close>

definition optionalGapAt :: "string \<Rightarrow> string \<Rightarrow> string \<Rightarrow> bool" where
  "optionalGapAt first second s =
     (prefixCI s first \<and>
      (case drop (length first) s of
         [] \<Rightarrow> prefixCI [] second
       | c # cs \<Rightarrow> (\<not> isLineTerminator c \<and> prefixCI cs second) \<or> prefixCI (c # cs) second))"

text \<open>
  The six patterns of \<open>findTimeSeries\<close>: \<open>/time.?series/i\<close>, \<open>/time_series/i\<close>,
  \<open>/Time Series/i\<close>, \<open>/daily/i\<close>, \<open>/weekly/i\<close>, \<open>/monthly/i\<close>.
\<close>

definition matchesTimeSeriesPattern :: "string \<Rightarrow> bool" where
  "matchesTimeSeriesPattern key =
     (anywhere (optionalGapAt ''time'' ''series'') key
      \<or> containsCI key ''time_series''
      \<or> containsCI key ''Time Series''
      \<or> containsCI key ''daily''
      \<or> containsCI key ''weekly''
      \<or> containsCI key ''monthly'')"

text \<open>The three patterns of \<open>findDataStructure\<close>: \<open>/global.?quote/i\<close>, \<open>/quote/i\<close>, \<open>/data/i\<close>.\<close>

definition matchesQuotePattern :: "string \<Rightarrow> bool" where
  "matchesQuotePattern key =
     (anywhere (optionalGapAt ''global'' ''quote'') key
      \<or> containsCI key ''quote''
      \<or> containsCI key ''data'')"

text \<open>\<open>/^\d{4}-\d{2}-\d{2}/\<close>.\<close>

definition dateLike :: "string \<Rightarrow> bool" where
  "dateLike s =
     (10 \<le> length s
      \<and> list_all isDigit (take 4 s) \<and> s ! 4 = CHR ''-''
      \<and> list_all isDigit (take 2 (drop 5 s)) \<and> s ! 7 = CHR ''-''
      \<and> list_all isDigit (take 2 (drop 8 s)))"

text \<open>\<open>/^\d+$/\<close>.\<close>

definition pureDigits :: "string \<Rightarrow> bool" where
  "pureDigits s = (s \<noteq> [] \<and> list_all isDigit s)"

text \<open>
  \<open>firstKey && /^\d{4}-\d{2}-\d{2}/.test(firstKey)\<close> for \<open>firstKey = keys[0]\<close>, which
  is \<open>undefined\<close> when there is no key.
\<close>

definition firstKeyIsDate :: "string list \<Rightarrow> bool" where
  "firstKeyIsDate keys =
     (case keys of [] \<Rightarrow> False | firstKey # rest \<Rightarrow> firstKey \<noteq> [] \<and> dateLike firstKey)"

subsection \<open>\<open>findTimeSeries\<close> and \<open>findDataStructure\<close>\<close>

text \<open>
  What \<open>for (const key in o)\<close> and \<open>Object.keys(o)\<close> enumerate for an object: the
  own enumerable keys (the built-in prototypes have no enumerable property).
\<close>

fun enumerableKeys :: "objref \<Rightarrow> string list" where
  "enumerableKeys (ORecord kvs) = map fst kvs"
| "enumerableKeys (OArray xs) = indexKeys (length xs)"
| "enumerableKeys (OProto p) = []"

text \<open>
  The loop of \<open>findTimeSeries\<close>.  A key is accepted when it matches a pattern and its
  value is a truthy non-array object (a record) whose first key looks like a date.
\<close>

fun timeSeriesLoop :: "objref \<Rightarrow> string list \<Rightarrow> (string \<times> json) option" where
  "timeSeriesLoop dataObj [] = None"
| "timeSeriesLoop dataObj (key # keys) =
     (if matchesTimeSeriesPattern key
      then (case getMember dataObj key of
              JSON (JObj entries) \<Rightarrow>
                (if firstKeyIsDate (map fst entries) then Some (key, JObj entries)
                 else timeSeriesLoop dataObj keys)
            | _ \<Rightarrow> timeSeriesLoop dataObj keys)
      else timeSeriesLoop dataObj keys)"

text \<open>The result is the pair \<open>{key, data}\<close>, or \<open>None\<close> for \<open>null\<close>.\<close>

definition findTimeSeries :: "json \<Rightarrow> (string \<times> json) option" where
  "findTimeSeries data =
     (case asObject (JSON data) of
        None \<Rightarrow> None
      | Some dataObj \<Rightarrow>
          (case timeSeriesLoop dataObj (enumerableKeys dataObj) of
             Some found \<Rightarrow> Some found
           | None \<Rightarrow>
               (if firstKeyIsDate (enumerableKeys dataObj) then Some (''root'', data)
                else None)))"

fun quoteLoop :: "objref \<Rightarrow> string list \<Rightarrow> (string \<times> json) option" where
  "quoteLoop dataObj [] = None"
| "quoteLoop dataObj (key # keys) =
     (if matchesQuotePattern key
      then (case getMember dataObj key of
              JSON (JObj entries) \<Rightarrow> Some (key, JObj entries)
            | _ \<Rightarrow> quoteLoop dataObj keys)
      else quoteLoop dataObj keys)"

text \<open>The result is the triple \<open>{key, data, isTimeSeries}\<close>.\<close>

definition findDataStructure :: "json \<Rightarrow> (string \<times> json \<times> bool) option" where
  "findDataStructure data =
     (case asObject (JSON data) of
        None \<Rightarrow> None
      | Some dataObj \<Rightarrow>
          (case findTimeSeries data of
             Some (key, d) \<Rightarrow> Some (key, d, True)
           | None \<Rightarrow>
               (case quoteLoop dataObj (enumerableKeys dataObj) of
                  Some (key, d) \<Rightarrow> Some (key, d, False)
                | None \<Rightarrow> Some (''root'', data, False))))"

subsection \<open>Sorting field names\<close>

text \<open>
  \<open>Array.prototype.sort\<close> with a comparator is a stable sort; only the sign of the
  comparator's result matters.  With a consistent comparator its result is the one
  insertion sort computes.
\<close>

fun insertBy :: "('a \<Rightarrow> 'a \<Rightarrow> int) \<Rightarrow> 'a \<Rightarrow> 'a list \<Rightarrow> 'a list" where
  "insertBy cmp x [] = [x]"
| "insertBy cmp x (y # ys) = (if cmp x y \<le> 0 then x # y # ys else y # insertBy cmp x ys)"

definition sortWith :: "('a \<Rightarrow> 'a \<Rightarrow> int) \<Rightarrow> 'a list \<Rightarrow> 'a list" where
  "sortWith cmp xs = foldr (insertBy cmp) xs []"

text \<open>\<open>parseInt(a.match(/^\d+/)?.[0] || "0")\<close>.\<close>

definition leadingNumber :: "string \<Rightarrow> jsnum" where
  "leadingNumber a =
     parseIntDigits (if takeWhile isDigit a = [] then ''0'' else takeWhile isDigit a)"

text \<open>\<open>x < y\<close> on numbers.\<close>

fun numRank :: "jsnum \<Rightarrow> (int \<times> rat) option" where
  "numRank NaN = None"
| "numRank NegInf = Some (- 1, 0)"
| "numRank PosInf = Some (1, 0)"
| "numRank NegZero = Some (0, 0)"
| "numRank (Fin r) = Some (0, r)"

definition numLess :: "jsnum \<Rightarrow> jsnum \<Rightarrow> bool" where
  "numLess x y =
     (case (numRank x, numRank y) of
        (Some (i, r), Some (j, s)) \<Rightarrow> i < j \<or> (i = j \<and> r < s)
      | _ \<Rightarrow> False)"

text \<open>
  The comparator of both field extractors.  \<open>numA - numB\<close> is kept as its sign;
  \<open>localeCompare\<close> belongs to the host and is a parameter.
\<close>

definition compareFields :: "(string \<Rightarrow> string \<Rightarrow> int) \<Rightarrow> string \<Rightarrow> string \<Rightarrow> int" where
  "compareFields localeCompare a b =
     (let numA = leadingNumber a; numB = leadingNumber b
      in if numA \<noteq> numB then (if numLess numA numB then - 1 else 1)
         else localeCompare a b)"

subsection \<open>The field extractors\<close>

text \<open>
  \<open>obj.hasOwnProperty(key)\<close> calls whatever \<open>obj.hasOwnProperty\<close> is: the built-in
  function, unless the record has an own property of that name, which is not
  callable.
\<close>

definition callHasOwnProperty :: "(string \<times> json) list \<Rightarrow> string \<Rightarrow> error + bool" where
  "callHasOwnProperty obj key =
     (case getMember (ORecord obj) ''hasOwnProperty'' of
        BuiltinFn f \<Rightarrow> Inr (key \<in> fst ` set obj)
      | _ \<Rightarrow> Inl TypeError)"

text \<open>
  The loops that collect fields: each takes the record, a test on the value of a key,
  and the keys still to visit.
\<close>

fun collectFields ::
    "(string \<times> json) list \<Rightarrow> (string \<Rightarrow> json \<Rightarrow> string list) \<Rightarrow> string list \<Rightarrow> error + string list" where
  "collectFields obj pick [] = Inr []"
| "collectFields obj pick (key # keys) =
     (case callHasOwnProperty obj key of
        Inl e \<Rightarrow> Inl e
      | Inr own \<Rightarrow>
          (case collectFields obj pick keys of
             Inl e \<Rightarrow> Inl e
           | Inr names \<Rightarrow>
               Inr ((if own then pick key (ownOrUndefined (JObj obj) key) else []) @ names)))"

text \<open>Every key of a time-series entry is a field.\<close>

definition pickAll :: "string \<Rightarrow> json \<Rightarrow> string list" where
  "pickAll key v = [key]"

text \<open>
  A leaf: \<open>null\<close>, \<open>undefined\<close>, a value that is not an object, or an array.
\<close>

fun isLeaf :: "json \<Rightarrow> bool" where
  "isLeaf (JObj kvs) = False"
| "isLeaf j = True"

definition pickLeaf :: "string \<Rightarrow> json \<Rightarrow> string list" where
  "pickLeaf key v = (if isLeaf v then [key] else [])"

text \<open>
  The fallback of \<open>extractFields\<close>: a leaf key unless it is pure digits, and for a
  nested record its own keys that are not pure digits.
\<close>

definition pickFlattened :: "string \<Rightarrow> json \<Rightarrow> string list" where
  "pickFlattened key v =
     (case v of
        JObj nested \<Rightarrow> filter (\<lambda>field. \<not> pureDigits field) (map fst nested)
      | _ \<Rightarrow> (if \<not> pureDigits key then [key] else []))"

definition extractTimeSeriesFields ::
    "(string \<Rightarrow> string \<Rightarrow> int) \<Rightarrow> json \<Rightarrow> error + string list" where
  "extractTimeSeriesFields localeCompare data =
     (case findTimeSeries data of
        None \<Rightarrow> Inr []
      | Some (key, timeSeriesData) \<Rightarrow>
          (case objectKeys timeSeriesData of
             Inl e \<Rightarrow> Inl e
           | Inr [] \<Rightarrow> Inr []
           | Inr (firstDate # dates) \<Rightarrow>
               (case ownOrUndefined timeSeriesData firstDate of
                  JObj entryObj \<Rightarrow>
                    (case collectFields entryObj pickAll (map fst entryObj) of
                       Inl e \<Rightarrow> Inl e
                     | Inr names \<Rightarrow> Inr (sortWith (compareFields localeCompare) names))
                | _ \<Rightarrow> Inr [])))"

definition extractSimpleFields ::
    "(string \<Rightarrow> string \<Rightarrow> int) \<Rightarrow> json \<Rightarrow> error + string list" where
  "extractSimpleFields localeCompare data =
     (case findDataStructure data of
        None \<Rightarrow> Inr []
      | Some (key, structureData, isTimeSeries) \<Rightarrow>
          (case structureData of
             JObj entries \<Rightarrow>
               (case collectFields entries pickLeaf (map fst entries) of
                  Inl e \<Rightarrow> Inl e
                | Inr names \<Rightarrow> Inr (sortWith (compareFields localeCompare) names))
           | _ \<Rightarrow> Inr []))"

text \<open>The filter applied to the fields of both extractors.\<close>

definition validField :: "string \<Rightarrow> bool" where
  "validField f = (f \<noteq> [] \<and> \<not> pureDigits f)"

definition filterValid :: "error + string list \<Rightarrow> error + string list" where
  "filterValid r = (case r of Inl e \<Rightarrow> Inl e | Inr names \<Rightarrow> Inr (filter validField names))"

text \<open>The fallback loop runs over the root object and ends with the default \<open>sort()\<close>.\<close>

definition flattenRoot :: "objref \<Rightarrow> error + string list" where
  "flattenRoot dataObj =
     (case collectFields (objectEntries dataObj) pickFlattened (enumerableKeys dataObj) of
        Inl e \<Rightarrow> Inl e
      | Inr names \<Rightarrow> Inr (sort names))"

text \<open>\<open>extractFields\<close>; its second parameter \<open>_maxDepth\<close> is never read.\<close>

definition extractFields :: "(string \<Rightarrow> string \<Rightarrow> int) \<Rightarrow> json \<Rightarrow> error + string list" where
  "extractFields localeCompare data =
     (case asObject (JSON data) of
        None \<Rightarrow> Inr []
      | Some dataObj \<Rightarrow>
          (case findTimeSeries data of
             Some timeSeries \<Rightarrow> filterValid (extractTimeSeriesFields localeCompare data)
           | None \<Rightarrow>
               (case findDataStructure data of
                  Some (key, d, isTimeSeries) \<Rightarrow>
                    (if \<not> isTimeSeries then filterValid (extractSimpleFields localeCompare data)
                     else flattenRoot dataObj)
                | None \<Rightarrow> flattenRoot dataObj)))"

section \<open>Reference notions and sample payloads\<close>

text \<open>
  The condition under which a key of a record is a time series, in the words of the
  specification: the key matches one of the name patterns, and its value is a non-array
  object whose first own key looks like a calendar date.
\<close>

definition acceptsAsTimeSeries :: "(string \<times> json) list \<Rightarrow> string \<Rightarrow> bool" where
  "acceptsAsTimeSeries kvs key =
     (matchesTimeSeriesPattern key \<and>
      (case map_of kvs key of
         Some (JObj entries) \<Rightarrow> firstKeyIsDate (map fst entries)
       | _ \<Rightarrow> False))"


text \<open>The daily series of the specification, and the payload that wraps it.\<close>

definition exampleSeriesValue :: json where
  "exampleSeriesValue =
     JObj [(''2024-01-02'', JObj [(''1. open'', JStr ''100''), (''4. close'', JStr ''105'')]),
           (''2024-01-03'', JObj [(''1. open'', JStr ''106''), (''4. close'', JStr ''110'')])]"

definition exampleSeries :: json where
  "exampleSeries = JObj [(''Time Series (Daily)'', exampleSeriesValue)]"

text \<open>The quote of the specification.\<close>

definition exampleQuoteValue :: json where
  "exampleQuoteValue =
     JObj [(''01. symbol'', JStr ''AAPL''), (''05. price'', JStr ''150.00''),
           (''09. change'', JStr ''-2.50'')]"

definition exampleQuote :: json where
  "exampleQuote = JObj [(''Global Quote'', exampleQuoteValue)]"



text \<open>A payload with a quote-like key before a time-series key.\<close>

definition quoteAndSeries :: "(string \<times> json) list" where
  "quoteAndSeries =
     [(''Global Quote'', exampleQuoteValue), (''Time Series (Daily)'', exampleSeriesValue)]"

text \<open>An object with one nested record and one scalar.\<close>

definition nestedPayload :: json where
  "nestedPayload = JObj [(''a'', JObj [(''b'', JNum (Fin 1))]), (''c'', JNum (Fin 2))]"

section \<open>Auxiliary facts\<close>

subsection \<open>Evaluation of the number readers\<close>

lemmas number_defs =
  parseFloat_def isWhiteSpace_def startsWith_def isDigit_def natOfDecimal_def digitVal_def
  decimalToDouble_def toDouble_def binExponent_def roundHalfEven_def Let_def

lemma parseFloat_0: "parseFloat ''0'' = Fin 0"
  by (simp add: number_defs)

lemma parseFloat_105: "parseFloat ''105'' = Fin 105"
  by (simp add: number_defs)

lemma parseFloat_110: "parseFloat ''110'' = Fin 110"
  by (simp add: number_defs)

lemma parseFloat_150: "parseFloat ''150.00'' = Fin 150"
  by (simp add: number_defs)

lemma parseFloat_minus: "parseFloat ''-2.50'' = Fin (- 5 / 2)"
  by (simp add: number_defs)

lemma parseFloat_abc: "parseFloat ''abc'' = NaN"
  by (simp add: number_defs)






subsection \<open>Integers below \<open>2^53\<close> are read exactly\<close>





subsection \<open>The comparator is consistent when \<open>localeCompare\<close> is\<close>









subsection \<open>Insertion sort sorts\<close>









subsection \<open>Patterns on the sample keys\<close>

lemma isTimeSeriesKey_daily_series: "isTimeSeriesKey ''Time Series (Daily)''"
  by (simp add: isTimeSeriesKey_def startsWith_def)

lemma isTimeSeriesKey_Daily: "isTimeSeriesKey ''Daily''"
  by (simp add: isTimeSeriesKey_def startsWith_def)

lemma not_isTimeSeriesKey_quote: "\<not> isTimeSeriesKey ''Global Quote''"
  by (simp add: isTimeSeriesKey_def startsWith_def)

lemma matches_daily_series: "matchesTimeSeriesPattern ''Time Series (Daily)''"
  by (simp add: matchesTimeSeriesPattern_def containsCI_def asciiUpper_def)

lemma not_matches_quote: "\<not> matchesTimeSeriesPattern ''Global Quote''"
  by (simp add: matchesTimeSeriesPattern_def containsCI_def optionalGapAt_def asciiUpper_def)

lemma not_matches_a: "\<not> matchesTimeSeriesPattern ''a''"
  by (simp add: matchesTimeSeriesPattern_def containsCI_def optionalGapAt_def asciiUpper_def)

lemma not_matches_c: "\<not> matchesTimeSeriesPattern ''c''"
  by (simp add: matchesTimeSeriesPattern_def containsCI_def optionalGapAt_def asciiUpper_def)

lemma not_quote_a: "\<not> matchesQuotePattern ''a''"
  by (simp add: matchesQuotePattern_def containsCI_def optionalGapAt_def asciiUpper_def)

lemma not_quote_c: "\<not> matchesQuotePattern ''c''"
  by (simp add: matchesQuotePattern_def containsCI_def optionalGapAt_def asciiUpper_def)

lemma dateLike_first: "dateLike ''2024-01-02''"
  by (simp add: dateLike_def isDigit_def)

lemma not_dateLike_a: "\<not> dateLike ''a''"
  by (simp add: dateLike_def)

lemma hasOwnProperty_builtin:
  "''hasOwnProperty'' \<notin> fst ` set obj \<Longrightarrow>
     callHasOwnProperty obj key = Inr (key \<in> fst ` set obj)"
  by (simp add: callHasOwnProperty_def fromObjectPrototype_def objectPrototype_def
      map_of_eq_None_iff [THEN iffD2])

subsection \<open>The generic adapter\<close>

lemma splitOn_nonempty: "splitOn c s \<noteq> []"
  by (induction s) (auto split: list.splits)

lemma asObject_truthy: "asObject (JSON d) = Some ob \<Longrightarrow> truthy d"
  by (cases d) auto

lemma navigateRoot_object:
  "navigateRoot v parts = Some w \<Longrightarrow> parts \<noteq> [] \<Longrightarrow> asObject v \<noteq> None"
  by (cases parts) (auto split: option.splits)

lemma resolveRoot_truthy:
  assumes "resolveRoot d config = Some (JSON t)" and "truthy t"
  shows "truthy d"
proof (cases "\<exists>p. configRootPath config = Some p \<and> p \<noteq> []")
  case True
  then obtain p where p: "configRootPath config = Some p" "p \<noteq> []" by blast
  with assms have "navigateRoot (JSON d) (splitOn CHR ''.'' p) = Some (JSON t)"
    by (simp add: resolveRoot_def)
  then have "asObject (JSON d) \<noteq> None"
    using navigateRoot_object splitOn_nonempty by blast
  then show ?thesis using asObject_truthy by blast
next
  case False
  with assms have "d = t"
    by (auto simp: resolveRoot_def split: option.splits if_splits)
  then show ?thesis using assms(2) by simp
qed

lemma objectKeys_defined:
  "x \<noteq> JNull \<Longrightarrow> x \<noteq> JUndefined \<Longrightarrow> \<exists>ks. objectKeys x = Inr ks"
  by (cases x) auto

subsection \<open>Path navigation\<close>

lemma walkPath_null: "walkPath (JSON JNull) ks = JSON JNull"
  by (cases ks) auto

lemma walkPath_append: "walkPath v (ks @ ks') = walkPath (walkPath v ks) ks'"
  by (induction ks arbitrary: v) (auto simp: walkPath_null split: option.splits)

lemma asObject_truthyVal: "asObject v = Some ob \<Longrightarrow> truthyVal v"
  by (cases v rule: asObject.cases) auto

lemma walkPath_step:
  "walkPath v (key # rest) =
     (case asObject v of
        Some ob \<Rightarrow> (if hasProperty ob key then walkPath (getMember ob key) rest else JSON JNull)
      | None \<Rightarrow> JSON JNull)"
  using asObject_truthyVal by (auto split: option.splits)

subsection \<open>The classifier loop\<close>

lemma find_Some_holds: "find P xs = Some x \<Longrightarrow> P x \<and> x \<in> set xs"
  by (induction xs) (auto split: if_splits)

lemma find_None_none: "find P xs = None \<Longrightarrow> \<not> (\<exists>x \<in> set xs. P x)"
  by (induction xs) (auto split: if_splits)

lemma timeSeriesLoop_find:
  "timeSeriesLoop (ORecord kvs) keys =
     (case find (acceptsAsTimeSeries kvs) keys of
        Some key \<Rightarrow> Some (key, ownOrUndefined (JObj kvs) key)
      | None \<Rightarrow> None)"
proof (induction keys)
  case Nil
  then show ?case by simp
next
  case (Cons key keys)
  show ?case
  proof (cases "map_of kvs key")
    case None
    then show ?thesis using Cons
      by (auto simp: acceptsAsTimeSeries_def fromObjectPrototype_def split: val.splits json.splits)
  next
    case (Some v)
    then show ?thesis using Cons
      by (cases v) (auto simp: acceptsAsTimeSeries_def ownOrUndefined_def)
  qed
qed

lemma findTimeSeries_record:
  "findTimeSeries (JObj kvs) =
     (case find (acceptsAsTimeSeries kvs) (map fst kvs) of
        Some key \<Rightarrow> Some (key, ownOrUndefined (JObj kvs) key)
      | None \<Rightarrow> (if firstKeyIsDate (map fst kvs) then Some (''root'', JObj kvs) else None))"
  by (simp add: findTimeSeries_def timeSeriesLoop_find split: option.splits)

subsection \<open>The sample payloads\<close>

lemma alphaVantage_exampleSeries:
  "alphaVantageTransform exampleSeries None =
     Inr (Some (Chart [''2024-01-02'', ''2024-01-03''] [Dataset ''4. close'' [Fin 105, Fin 110]]))"
  by (simp add: exampleSeries_def exampleSeriesValue_def alphaVantageTransform_def
      isTimeSeriesKey_daily_series ownOrUndefined_def chartValue_def orElse_def configField_def
      parseFloat_105 parseFloat_110)

lemmas quote_defs =
  alphaVantageTransform_def not_isTimeSeriesKey_quote ownOrUndefined_def quoteMetric_def
  parseFloatOf_def orDefault_def

lemma alphaVantage_exampleQuote:
  "alphaVantageTransform exampleQuote None =
     Inr (Some (Metric (JStr ''AAPL'') (JSON (JNum (Fin 150))) (Some (Fin (- 5 / 2)))
                  (Some Negative)))"
  by (simp add: exampleQuote_def exampleQuoteValue_def quote_defs parseFloat_150 parseFloat_minus)




subsection \<open>What the field extractors return\<close>











section \<open>The adapter registry\<close>

text \<open>
  For an id that is not a property name of \<open>Object.prototype\<close>, \<open>getMapper\<close> returns
  the adapter registered under the id, and the generic adapter when there is none.
\<close>

lemma getMapper_plain_id:
  "id' \<notin> set objectPrototype \<Longrightarrow>
     getMapper id' =
       (case map_of mappers id' of Some a \<Rightarrow> Adapter a | None \<Rightarrow> Adapter GenericJSONAdapter)"
  by (simp add: getMapper_def fromObjectPrototype_def objectPrototype_def split: option.splits)

text \<open>
  Claim C3 (every string id resolves to an adapter, the generic one when the id is
  unknown) fails on the name of an inherited property: \<open>getMapper("constructor")\<close>
  returns the built-in function \<open>mappers.constructor\<close>, which is truthy and is not an
  adapter, instead of the generic adapter.
\<close>

theorem getMapper_inherited_name:
  "getMapper ''constructor'' = NotAnAdapter (BuiltinFn ''constructor'')"
  by (simp add: getMapper_def mappers_def fromObjectPrototype_def objectPrototype_def)

section \<open>Absent payloads\<close>

text \<open>
  Claim C4: each of the two adapters is registered under its own id, and its
  \<open>transform\<close> returns \<open>null\<close> (\<open>Inr None\<close>), not an exception, for the payloads
  \<open>null\<close> and \<open>undefined\<close>, whatever the configuration.
\<close>

theorem absent_payload_null:
  "map_of mappers (adapterId a) = Some a
   \<and> transform a JNull config = Inr None
   \<and> transform a JUndefined config = Inr None"
  by (cases a) (simp_all add: mappers_def alphaVantageTransform_def genericTransform_def)

section \<open>The generic adapter on arrays and on records\<close>

text \<open>
  Claim C2, as stated for every non-empty array, fails on an array whose first element
  is \<open>null\<close>: \<open>Object.keys(null)\<close> throws a \<open>TypeError\<close>, so no table is returned.
\<close>

theorem generic_array_null_element_counterexample:
  "genericTransform (JArr [JNull]) None = Inl TypeError"
  by (simp add: genericTransform_def resolveRoot_def configRootPath_def fromTarget_def)

text \<open>
  Claim C2, amended: when the payload is an array, or \<open>rootPath\<close> resolves to an array,
  the generic adapter returns a table.  The empty array gives no headers and no rows.  A
  non-empty array whose first element is neither \<open>null\<close> nor \<open>undefined\<close> gives the
  own keys of the first element, in their own order, as headers (for a record, its key
  sequence), and the elements of the array, unchanged and as many, as rows.
\<close>

theorem generic_array_table:
  assumes "resolveRoot d config = Some (JSON (JArr xs))"
  shows "(xs = [] \<longrightarrow> genericTransform d config = Inr (Some (Table [] [])))
       \<and> (xs \<noteq> [] \<and> hd xs \<noteq> JNull \<and> hd xs \<noteq> JUndefined \<longrightarrow>
            (\<exists>headers rows. objectKeys (hd xs) = Inr headers
               \<and> genericTransform d config = Inr (Some (Table headers rows))
               \<and> rows = map Verbatim xs \<and> length rows = length xs))
       \<and> objectKeys (JObj kvs) = Inr (map fst kvs)"
proof -
  have "truthy d" using assms by (rule resolveRoot_truthy) simp
  then have g: "genericTransform d config = fromTarget (JSON (JArr xs)) config"
    using assms by (simp add: genericTransform_def)
  show ?thesis
  proof (cases xs)
    case Nil
    then show ?thesis using g by (simp add: fromTarget_def)
  next
    case (Cons x rest)
    show ?thesis
    proof (cases "x \<noteq> JNull \<and> x \<noteq> JUndefined")
      case True
      then obtain ks where "objectKeys x = Inr ks" using objectKeys_defined by blast
      then show ?thesis using g Cons by (simp add: fromTarget_def)
    next
      case False
      then show ?thesis using Cons by auto
    qed
  qed
qed

text \<open>
  Claim C2, witness: an array of two records under the root path \<open>data.items\<close>; the
  headers are the keys of the first record, in its order.
\<close>

theorem generic_array_table_witness:
  "resolveRoot
      (JObj [(''data'', JObj [(''items'',
          JArr [JObj [(''symbol'', JStr ''AAPL''), (''price'', JNum (Fin 150))],
                JObj [(''symbol'', JStr ''MSFT'')]])])])
      (Some \<lparr>fieldMapping = None, rootPath = Some ''data.items''\<rparr>)
    = Some (JSON (JArr [JObj [(''symbol'', JStr ''AAPL''), (''price'', JNum (Fin 150))],
                        JObj [(''symbol'', JStr ''MSFT'')]]))
   \<and> genericTransform
      (JObj [(''data'', JObj [(''items'',
          JArr [JObj [(''symbol'', JStr ''AAPL''), (''price'', JNum (Fin 150))],
                JObj [(''symbol'', JStr ''MSFT'')]])])])
      (Some \<lparr>fieldMapping = None, rootPath = Some ''data.items''\<rparr>)
    = Inr (Some (Table [''symbol'', ''price'']
        [Verbatim (JObj [(''symbol'', JStr ''AAPL''), (''price'', JNum (Fin 150))]),
         Verbatim (JObj [(''symbol'', JStr ''MSFT'')])]))"
proof -
  have r: "resolveRoot
      (JObj [(''data'', JObj [(''items'',
          JArr [JObj [(''symbol'', JStr ''AAPL''), (''price'', JNum (Fin 150))],
                JObj [(''symbol'', JStr ''MSFT'')]])])])
      (Some \<lparr>fieldMapping = None, rootPath = Some ''data.items''\<rparr>)
    = Some (JSON (JArr [JObj [(''symbol'', JStr ''AAPL''), (''price'', JNum (Fin 150))],
                        JObj [(''symbol'', JStr ''MSFT'')]]))"
    by (simp add: resolveRoot_def configRootPath_def)
  show ?thesis using r generic_array_table [OF r] by auto
qed

text \<open>
  Claim C10, as stated for every \<open>fieldMapping.value\<close> naming a key absent from the
  record, fails in two ways on the record \<open>{"a": 1}\<close>.  With the value \<open>toString\<close>,
  which is no key of the record, the metric holds the function inherited from
  \<open>Object.prototype\<close>, not \<open>undefined\<close>.  With the empty string, which is no key of
  the record either, the test \<open>config?.fieldMapping?.value\<close> fails and the key-value
  table is returned, not a metric.
\<close>

theorem generic_missing_field_counterexample:
  "genericTransform (JObj [(''a'', JNum (Fin 1))])
      (Some \<lparr>fieldMapping = Some [(''value'', ''toString'')], rootPath = None\<rparr>)
     = Inr (Some (Metric (JStr ''Value'') (BuiltinFn ''toString'') None None))
   \<and> genericTransform (JObj [(''a'', JNum (Fin 1))])
      (Some \<lparr>fieldMapping = Some [(''value'', ''toString'')], rootPath = None\<rparr>)
     \<noteq> Inr (Some (Metric (JStr ''Value'') (JSON JUndefined) None None))
   \<and> ''toString'' \<notin> fst ` set [(''a'', JNum (Fin 1))]
   \<and> genericTransform (JObj [(''a'', JNum (Fin 1))])
      (Some \<lparr>fieldMapping = Some [(''value'', [])], rootPath = None\<rparr>)
     = Inr (Some (Table [''Key'', ''Value''] [KeyValue ''a'' (Plain (JNum (Fin 1)))]))
   \<and> [] \<notin> fst ` set [(''a'', JNum (Fin 1))]"
  by (simp add: genericTransform_def resolveRoot_def configRootPath_def fromTarget_def
      configField_def orElse_def fromObjectPrototype_def objectPrototype_def keyValueTable_def
      keyValueRow_def)

text \<open>
  Claim C10, amended: when the payload is a record, or \<open>rootPath\<close> resolves to one, and
  \<open>fieldMapping.value\<close> is a non-empty string that names no property of the record,
  neither an own key nor a name of \<open>Object.prototype\<close>, the generic adapter still
  returns a metric: its label is \<open>fieldMapping.label\<close>, or \<open>Value\<close> when that is
  absent or empty, and its value is \<open>undefined\<close>.
\<close>

theorem generic_missing_field_metric:
  assumes "resolveRoot d config = Some (JSON (JObj kvs))"
    and "configField config ''value'' = Some k"
    and "k \<noteq> []"
    and "k \<notin> fst ` set kvs"
    and "k \<notin> set objectPrototype"
  shows "genericTransform d config =
           Inr (Some (Metric (JStr (orElse (configField config ''label'') ''Value''))
                        (JSON JUndefined) None None))"
proof -
  have t: "truthy d" using assms(1) by (rule resolveRoot_truthy) simp
  have m: "map_of kvs k = None" using assms(4) by (simp add: map_of_eq_None_iff)
  have p: "k \<noteq> ''__proto__''" using assms(5) by (auto simp: objectPrototype_def)
  have "getMember (ORecord kvs) k = JSON JUndefined"
    using m p assms(5) by (simp add: fromObjectPrototype_def)
  then show ?thesis
    using t assms(1,2,3) by (simp add: genericTransform_def fromTarget_def)
qed

text \<open>
  Claim C10, witness: the record \<open>{"symbol": "AAPL"}\<close> and a mapping of the value to
  the missing field \<open>price\<close>.
\<close>

theorem generic_missing_field_metric_witness:
  "resolveRoot (JObj [(''symbol'', JStr ''AAPL'')])
      (Some \<lparr>fieldMapping = Some [(''value'', ''price'')], rootPath = None\<rparr>)
     = Some (JSON (JObj [(''symbol'', JStr ''AAPL'')]))
   \<and> configField (Some \<lparr>fieldMapping = Some [(''value'', ''price'')], rootPath = None\<rparr>) ''value''
     = Some ''price''
   \<and> ''price'' \<noteq> []
   \<and> ''price'' \<notin> fst ` set [(''symbol'', JStr ''AAPL'')]
   \<and> ''price'' \<notin> set objectPrototype
   \<and> genericTransform (JObj [(''symbol'', JStr ''AAPL'')])
      (Some \<lparr>fieldMapping = Some [(''value'', ''price'')], rootPath = None\<rparr>)
     = Inr (Some (Metric (JStr ''Value'') (JSON JUndefined) None None))"
proof -
  have h1: "resolveRoot (JObj [(''symbol'', JStr ''AAPL'')])
      (Some \<lparr>fieldMapping = Some [(''value'', ''price'')], rootPath = None\<rparr>)
     = Some (JSON (JObj [(''symbol'', JStr ''AAPL'')]))"
    by (simp add: resolveRoot_def configRootPath_def)
  have h2: "configField (Some \<lparr>fieldMapping = Some [(''value'', ''price'')], rootPath = None\<rparr>)
      ''value'' = Some ''price''"
    by (simp add: configField_def)
  have h3: "''price'' \<noteq> []" by simp
  have h4: "''price'' \<notin> fst ` set [(''symbol'', JStr ''AAPL'')]" by simp
  have h5: "''price'' \<notin> set objectPrototype" by (simp add: objectPrototype_def)
  show ?thesis
    using h1 h2 h3 h4 h5 generic_missing_field_metric [OF h1 h2 h3 h4 h5]
    by (simp add: orElse_def configField_def)
qed

section \<open>The Alpha Vantage adapter\<close>

text \<open>
  Claim C1, as stated, fails on a field that is a string without a number: its value in
  the dataset is \<open>NaN\<close>, not 0.
\<close>

theorem alphaVantage_chart_unparseable_counterexample:
  "alphaVantageTransform
     (JObj [(''Daily'', JObj [(''2024-01-02'', JObj [(''4. close'', JStr ''abc'')])])]) None
   = Inr (Some (Chart [''2024-01-02''] [Dataset ''4. close'' [NaN]]))
   \<and> alphaVantageTransform
     (JObj [(''Daily'', JObj [(''2024-01-02'', JObj [(''4. close'', JStr ''abc'')])])]) None
   \<noteq> Inr (Some (Chart [''2024-01-02''] [Dataset ''4. close'' [Fin 0]]))"
  by (simp add: alphaVantageTransform_def isTimeSeriesKey_Daily ownOrUndefined_def
      chartValue_def orElse_def configField_def parseFloat_abc)

text \<open>
  Claim C1, amended: for a record payload with a key that includes one of the four
  substrings, where the value \<open>ts\<close> under the first such key is neither \<open>null\<close> nor
  \<open>undefined\<close>, the adapter returns a chart.  Its labels are the own keys of \<open>ts\<close>
  sorted in ascending order of code units.  Its single dataset is labelled with
  \<open>fieldMapping.value\<close> (\<open>4. close\<close> when that is absent or empty) and holds, for each
  label, \<open>parseFloat\<close> of that field of the entry when the field is a string (so
  \<open>NaN\<close> when the string starts with no number) and 0 when the field is missing or is
  not a string.  On the daily series of the specification the labels are the two dates
  and the data are 105 and 110.
\<close>

theorem alphaVantage_chart:
  assumes "find isTimeSeriesKey (map fst kvs) = Some k"
    and "map_of kvs k = Some ts"
    and "ts \<noteq> JNull" and "ts \<noteq> JUndefined"
  shows "(\<exists>ks labels. objectKeys ts = Inr ks \<and> sorted labels \<and> mset labels = mset ks \<and>
           alphaVantageTransform (JObj kvs) config =
             Inr (Some (Chart labels
               [Dataset (orElse (configField config ''value'') ''4. close'')
                  (map (\<lambda>date. case ownProp (ownOrUndefined ts date)
                                       (orElse (configField config ''value'') ''4. close'') of
                                  Some (JStr s) \<Rightarrow> parseFloat s
                                | _ \<Rightarrow> Fin 0) labels)])))
       \<and> alphaVantageTransform exampleSeries None =
           Inr (Some (Chart [''2024-01-02'', ''2024-01-03'']
                        [Dataset ''4. close'' [Fin 105, Fin 110]]))"
proof -
  obtain ks where ks: "objectKeys ts = Inr ks"
    using assms(3,4) objectKeys_defined by blast
  have cv: "chartValue ts tf = (\<lambda>date. case ownProp (ownOrUndefined ts date) tf of
                                  Some (JStr s) \<Rightarrow> parseFloat s | _ \<Rightarrow> Fin 0)" for tf
    by (rule ext) (simp add: chartValue_def)
  have "alphaVantageTransform (JObj kvs) config =
          Inr (Some (Chart (sort ks)
               [Dataset (orElse (configField config ''value'') ''4. close'')
                  (map (chartValue ts (orElse (configField config ''value'') ''4. close''))
                     (sort ks))]))"
    using assms(1,2) ks by (simp add: alphaVantageTransform_def ownOrUndefined_def Let_def)
  then have "\<exists>ks labels. objectKeys ts = Inr ks \<and> sorted labels \<and> mset labels = mset ks \<and>
           alphaVantageTransform (JObj kvs) config =
             Inr (Some (Chart labels
               [Dataset (orElse (configField config ''value'') ''4. close'')
                  (map (\<lambda>date. case ownProp (ownOrUndefined ts date)
                                       (orElse (configField config ''value'') ''4. close'') of
                                  Some (JStr s) \<Rightarrow> parseFloat s
                                | _ \<Rightarrow> Fin 0) labels)]))"
    using ks cv by - (rule exI [of _ ks], rule exI [of _ "sort ks"], simp)
  then show ?thesis using alphaVantage_exampleSeries by blast
qed

text \<open>
  Claim C1, witness: a weekly series given in descending order, read with the field
  \<open>1. open\<close>; one entry has that field as a number, which counts as 0.
\<close>

theorem alphaVantage_chart_witness:
  "find isTimeSeriesKey
      (map fst [(''Meta Data'', JNull),
                (''Weekly Prices'', JObj [(''2024-01-12'', JObj [(''1. open'', JStr ''110'')]),
                                         (''2024-01-05'', JObj [(''1. open'', JNum (Fin 7))])])])
     = Some ''Weekly Prices''
   \<and> (\<exists>labels values.
        alphaVantageTransform
          (JObj [(''Meta Data'', JNull),
                 (''Weekly Prices'', JObj [(''2024-01-12'', JObj [(''1. open'', JStr ''110'')]),
                                          (''2024-01-05'', JObj [(''1. open'', JNum (Fin 7))])])])
          (Some \<lparr>fieldMapping = Some [(''value'', ''1. open'')], rootPath = None\<rparr>)
        = Inr (Some (Chart labels [Dataset ''1. open'' values]))
        \<and> sorted labels
        \<and> mset labels = mset [''2024-01-12'', ''2024-01-05'']
        \<and> values = map (\<lambda>date. if date = ''2024-01-12'' then Fin 110 else Fin 0) labels)"
proof -
  define ts where
    "ts = JObj [(''2024-01-12'', JObj [(''1. open'', JStr ''110'')]),
                (''2024-01-05'', JObj [(''1. open'', JNum (Fin 7))])]"
  define kvs where "kvs = [(''Meta Data'', JNull), (''Weekly Prices'', ts)]"
  define config where
    "config = Some \<lparr>fieldMapping = Some [(''value'', ''1. open'')], rootPath = None\<rparr>"
  have h1: "find isTimeSeriesKey (map fst kvs) = Some ''Weekly Prices''"
    by (simp add: kvs_def isTimeSeriesKey_def startsWith_def)
  have h2: "map_of kvs ''Weekly Prices'' = Some ts" by (simp add: kvs_def)
  have h3: "ts \<noteq> JNull" by (simp add: ts_def)
  have h4: "ts \<noteq> JUndefined" by (simp add: ts_def)
  have tf: "orElse (configField config ''value'') ''4. close'' = ''1. open''"
    by (simp add: config_def orElse_def configField_def)
  have v: "(\<lambda>date. case ownProp (ownOrUndefined ts date) ''1. open'' of
              Some (JStr s) \<Rightarrow> parseFloat s | _ \<Rightarrow> Fin 0)
           = (\<lambda>date. if date = ''2024-01-12'' then Fin 110 else Fin 0)"
    by (rule ext) (simp add: ts_def ownOrUndefined_def parseFloat_110)
  have k: "objectKeys ts = Inr [''2024-01-12'', ''2024-01-05'']" by (simp add: ts_def)
  from alphaVantage_chart [OF h1 h2 h3 h4, of config]
  obtain ks labels where
    a: "objectKeys ts = Inr ks" and b: "sorted labels" and c: "mset labels = mset ks" and
    d: "alphaVantageTransform (JObj kvs) config =
          Inr (Some (Chart labels
            [Dataset ''1. open''
               (map (\<lambda>date. if date = ''2024-01-12'' then Fin 110 else Fin 0) labels)]))"
    unfolding tf v by blast
  have c': "mset labels = mset [''2024-01-12'', ''2024-01-05'']" using a c k by simp
  have "\<exists>labels values.
        alphaVantageTransform (JObj kvs) config = Inr (Some (Chart labels [Dataset ''1. open'' values]))
        \<and> sorted labels
        \<and> mset labels = mset [''2024-01-12'', ''2024-01-05'']
        \<and> values = map (\<lambda>date. if date = ''2024-01-12'' then Fin 110 else Fin 0) labels"
    using b c' d by blast
  then show ?thesis using h1 unfolding kvs_def ts_def config_def by simp
qed

text \<open>
  Claim C6, as stated, fails on a price that is a string without a number: the value
  of the metric is \<open>NaN\<close>, not 0.
\<close>

theorem alphaVantage_quote_unparseable_counterexample:
  "alphaVantageTransform (JObj [(''Global Quote'', JObj [(''05. price'', JStr ''abc'')])]) None
   = Inr (Some (Metric (JStr ''Unknown'') (JSON (JNum NaN)) (Some (Fin 0)) (Some Positive)))
   \<and> alphaVantageTransform (JObj [(''Global Quote'', JObj [(''05. price'', JStr ''abc'')])]) None
   \<noteq> Inr (Some (Metric (JStr ''Unknown'') (JSON (JNum (Fin 0))) (Some (Fin 0)) (Some Positive)))"
  by (simp add: quote_defs parseFloat_abc parseFloat_0)

text \<open>
  Claim C6, amended: for a record payload with no time-series key and a truthy
  \<open>Global Quote\<close> entry whose \<open>05. price\<close> and \<open>09. change\<close> convert to strings, the
  adapter returns a metric.  Its label is the \<open>01. symbol\<close> field when that is truthy
  and \<open>Unknown\<close> otherwise.  Its value and change are \<open>parseFloat\<close> of the
  \<open>05. price\<close> and \<open>09. change\<close> fields, with the string \<open>0\<close> read in place of a field
  that is missing or falsy; a missing field so gives 0, a string field gives what
  \<open>parseFloat\<close> reads from it, which is \<open>NaN\<close> when it starts with no number.  The
  change type is positive exactly when the change read is \<open>>= 0\<close>, and negative
  otherwise.  The quote of the specification gives AAPL, 150, -2.5 and negative.
\<close>

theorem alphaVantage_quote_metric:
  assumes "find isTimeSeriesKey (map fst kvs) = None"
    and "map_of kvs ''Global Quote'' = Some q"
    and "truthy q"
    and "\<not> toStringThrows (ownOrUndefined q ''05. price'')"
    and "\<not> toStringThrows (ownOrUndefined q ''09. change'')"
  shows "alphaVantageTransform (JObj kvs) config =
           Inr (Some (Metric
             (orDefault (ownOrUndefined q ''01. symbol'') (JStr ''Unknown''))
             (JSON (JNum (numberOfString (orDefault (ownOrUndefined q ''05. price'') (JStr ''0'')))))
             (Some (numberOfString (orDefault (ownOrUndefined q ''09. change'') (JStr ''0''))))
             (Some (if geZero (numberOfString (orDefault (ownOrUndefined q ''09. change'') (JStr ''0'')))
                    then Positive else Negative))))
       \<and> numberOfString (orDefault JUndefined (JStr ''0'')) = Fin 0
       \<and> numberOfString (JStr s) = parseFloat s
       \<and> alphaVantageTransform exampleQuote None =
           Inr (Some (Metric (JStr ''AAPL'') (JSON (JNum (Fin 150))) (Some (Fin (- 5 / 2)))
                        (Some Negative)))"
proof -
  have t: "\<not> toStringThrows (orDefault v (JStr ''0''))" if "\<not> toStringThrows v" for v
    using that by (simp add: orDefault_def)
  show ?thesis
    using assms alphaVantage_exampleQuote parseFloat_0
    by (simp add: alphaVantageTransform_def ownOrUndefined_def [of "JObj kvs"] quoteMetric_def
        parseFloatOf_def t orDefault_def [of JUndefined])
qed

text \<open>
  Claim C6, witness: a quote without a symbol and with a positive change; the price is
  missing and reads as 0.
\<close>

theorem alphaVantage_quote_metric_witness:
  "find isTimeSeriesKey (map fst [(''Global Quote'', JObj [(''09. change'', JStr ''105'')])]) = None
   \<and> truthy (JObj [(''09. change'', JStr ''105'')])
   \<and> \<not> toStringThrows (ownOrUndefined (JObj [(''09. change'', JStr ''105'')]) ''05. price'')
   \<and> \<not> toStringThrows (ownOrUndefined (JObj [(''09. change'', JStr ''105'')]) ''09. change'')
   \<and> alphaVantageTransform (JObj [(''Global Quote'', JObj [(''09. change'', JStr ''105'')])]) None
     = Inr (Some (Metric (JStr ''Unknown'') (JSON (JNum (Fin 0))) (Some (Fin 105)) (Some Positive)))"
proof -
  let ?q = "JObj [(''09. change'', JStr ''105'')]"
  have h1: "find isTimeSeriesKey (map fst [(''Global Quote'', ?q)]) = None"
    by (simp add: not_isTimeSeriesKey_quote)
  have h2: "map_of [(''Global Quote'', ?q)] ''Global Quote'' = Some ?q" by simp
  have h3: "truthy ?q" by simp
  have h4: "\<not> toStringThrows (ownOrUndefined ?q ''05. price'')"
    by (simp add: ownOrUndefined_def)
  have h5: "\<not> toStringThrows (ownOrUndefined ?q ''09. change'')"
    by (simp add: ownOrUndefined_def)
  show ?thesis
    using h1 h3 h4 h5 alphaVantage_quote_metric [OF h1 h2 h3 h4 h5, of None]
    by (simp add: ownOrUndefined_def orDefault_def parseFloat_0 parseFloat_105)
qed

section \<open>Path navigation\<close>

text \<open>
  Claim C8, as stated, fails on a falsy payload: with no path, \<open>extractData(0)\<close>
  returns \<open>null\<close>, not the payload 0.
\<close>

theorem extractData_falsy_payload_counterexample:
  "extractData (JNum (Fin 0)) None = JSON JNull
   \<and> extractData (JNum (Fin 0)) None \<noteq> JSON (JNum (Fin 0))"
  by (simp add: extractData_def numTruthy_def)

text \<open>
  Claim C8, amended: \<open>extractData\<close> returns a value for every payload and path, and
  never throws.  A falsy payload gives \<open>null\<close>, whatever the path.  A truthy payload
  is returned unchanged when the path is \<open>undefined\<close> or empty; otherwise the segments
  between the dots are walked from the payload.  The walk returns \<open>null\<close> as soon as the
  value reached is not a non-null object, or does not have the next segment as a
  property, own or inherited; a segment that is a property is followed to the value of
  that property, and a walk with no segment left ends at the value reached.
\<close>

theorem extractData_navigation:
  "(\<not> truthy d0 \<longrightarrow> extractData d0 path = JSON JNull)
   \<and> (truthy d \<longrightarrow> extractData d None = JSON d \<and> extractData d (Some []) = JSON d)
   \<and> (truthy d \<and> p \<noteq> [] \<longrightarrow>
        extractData d (Some p) = walkPath (JSON d) (splitOn CHR ''.'' p))
   \<and> (asObject (walkPath v1 ks1) = None \<longrightarrow> walkPath v1 (ks1 @ key1 # rest1) = JSON JNull)
   \<and> (asObject (walkPath v2 ks2) = Some ob2 \<and> \<not> hasProperty ob2 key2 \<longrightarrow>
        walkPath v2 (ks2 @ key2 # rest2) = JSON JNull)
   \<and> (asObject (walkPath v3 ks3) = Some ob3 \<and> hasProperty ob3 key3 \<longrightarrow>
        walkPath v3 (ks3 @ [key3]) = getMember ob3 key3)
   \<and> walkPath v4 [] = v4"
  by (simp add: extractData_def walkPath_append walkPath_step del: walkPath.simps(2))

text \<open>
  Claim C8, witness: the payload \<open>{"quote": {"price": "150"}}\<close>.  The path
  \<open>quote.price\<close> leads to the string, \<open>quote.price.x\<close> leaves it (a string is no
  object), \<open>quote.volume\<close> names no property; the payload \<open>null\<close> gives \<open>null\<close>.
\<close>

theorem extractData_navigation_witness:
  "\<not> truthy JNull
   \<and> extractData JNull (Some ''quote'') = JSON JNull
   \<and> truthy (JObj [(''quote'', JObj [(''price'', JStr ''150'')])])
   \<and> extractData (JObj [(''quote'', JObj [(''price'', JStr ''150'')])]) None
       = JSON (JObj [(''quote'', JObj [(''price'', JStr ''150'')])])
   \<and> extractData (JObj [(''quote'', JObj [(''price'', JStr ''150'')])]) (Some ''quote.price'')
       = JSON (JStr ''150'')
   \<and> walkPath (JSON (JObj [(''quote'', JObj [(''price'', JStr ''150'')])]))
         ([''quote'', ''price''] @ ''x'' # []) = JSON JNull
   \<and> walkPath (JSON (JObj [(''quote'', JObj [(''price'', JStr ''150'')])]))
         ([''quote''] @ ''volume'' # []) = JSON JNull
   \<and> walkPath (JSON (JObj [(''quote'', JObj [(''price'', JStr ''150'')])]))
         ([''quote''] @ [''price'']) = JSON (JStr ''150'')"
proof -
  define payload where "payload = JObj [(''quote'', JObj [(''price'', JStr ''150'')])]"
  have h0: "\<not> truthy JNull" by simp
  have h1: "truthy payload" by (simp add: payload_def)
  have h2: "truthy payload \<and> ''quote.price'' \<noteq> []" using h1 by simp
  have h3: "asObject (walkPath (JSON payload) [''quote'', ''price'']) = None"
    by (simp add: payload_def)
  have h4: "asObject (walkPath (JSON payload) [''quote'']) = Some (ORecord [(''price'', JStr ''150'')])
            \<and> \<not> hasProperty (ORecord [(''price'', JStr ''150'')]) ''volume''"
    by (simp add: payload_def objectPrototype_def)
  have h5: "asObject (walkPath (JSON payload) [''quote'']) = Some (ORecord [(''price'', JStr ''150'')])
            \<and> hasProperty (ORecord [(''price'', JStr ''150'')]) ''price''"
    by (simp add: payload_def)
  have s: "splitOn CHR ''.'' ''quote.price'' = [''quote'', ''price'']" by simp
  have w: "walkPath (JSON payload) [''quote'', ''price''] = JSON (JStr ''150'')"
    by (simp add: payload_def)
  note t = extractData_navigation
    [of JNull "Some ''quote''" payload "''quote.price''"
        "JSON payload" "[''quote'', ''price'']" "''x''" "[]"
        "JSON payload" "[''quote'']" "ORecord [(''price'', JStr ''150'')]" "''volume''" "[]"
        "JSON payload" "[''quote'']" "ORecord [(''price'', JStr ''150'')]" "''price''"]
  have "extractData JNull (Some ''quote'') = JSON JNull" using t h0 by blast
  moreover have "extractData payload None = JSON payload" using t h1 by blast
  moreover have "extractData payload (Some ''quote.price'') = JSON (JStr ''150'')"
    using t h2 s w by simp
  moreover have "walkPath (JSON payload) ([''quote'', ''price''] @ ''x'' # []) = JSON JNull"
    using t h3 by blast
  moreover have "walkPath (JSON payload) ([''quote''] @ ''volume'' # []) = JSON JNull"
    using t h4 by blast
  moreover have "walkPath (JSON payload) ([''quote''] @ [''price'']) = JSON (JStr ''150'')"
    using t h5 by simp
  ultimately show ?thesis using h0 h1 unfolding payload_def by blast
qed

section \<open>The structure classifier\<close>

text \<open>
  Claim C7: for every record payload, \<open>findTimeSeries\<close> accepts the first own key, in
  the order of iteration, that matches a time-series name pattern and whose value is a
  non-array object with a date-like first key, and returns that key with its value;
  failing that, it accepts the payload itself under the key \<open>root\<close> when its own first
  key is date-like; otherwise it returns nothing.  \<open>findDataStructure\<close> classifies the
  payload as a time series exactly when \<open>findTimeSeries\<close> accepts it, with the same key
  and data, and as something else in every other case; the quote patterns are considered
  only in that other case.
\<close>

theorem timeSeries_classification:
  "findTimeSeries (JObj kvs) =
     (case find (acceptsAsTimeSeries kvs) (map fst kvs) of
        Some key \<Rightarrow> Some (key, ownOrUndefined (JObj kvs) key)
      | None \<Rightarrow> (if firstKeyIsDate (map fst kvs) then Some (''root'', JObj kvs) else None))
   \<and> (findTimeSeries (JObj kvs) \<noteq> None) =
       ((\<exists>key \<in> set (map fst kvs). acceptsAsTimeSeries kvs key) \<or> firstKeyIsDate (map fst kvs))
   \<and> (\<exists>key d. findDataStructure (JObj kvs) = Some (key, d, True))
       = (findTimeSeries (JObj kvs) \<noteq> None)
   \<and> (case findTimeSeries (JObj kvs) of
         Some (key, d) \<Rightarrow> findDataStructure (JObj kvs) = Some (key, d, True)
       | None \<Rightarrow> (\<exists>key d. findDataStructure (JObj kvs) = Some (key, d, False)))"
proof -
  have a: "findTimeSeries (JObj kvs) =
     (case find (acceptsAsTimeSeries kvs) (map fst kvs) of
        Some key \<Rightarrow> Some (key, ownOrUndefined (JObj kvs) key)
      | None \<Rightarrow> (if firstKeyIsDate (map fst kvs) then Some (''root'', JObj kvs) else None))"
    by (rule findTimeSeries_record)
  have b: "(findTimeSeries (JObj kvs) \<noteq> None) =
       ((\<exists>key \<in> set (map fst kvs). acceptsAsTimeSeries kvs key) \<or> firstKeyIsDate (map fst kvs))"
  proof (cases "find (acceptsAsTimeSeries kvs) (map fst kvs)")
    case None
    then show ?thesis using a find_None_none [OF None] by simp
  next
    case (Some key)
    then show ?thesis using a find_Some_holds [OF Some] by auto
  qed
  have c: "(case findTimeSeries (JObj kvs) of
         Some (key, d) \<Rightarrow> findDataStructure (JObj kvs) = Some (key, d, True)
       | None \<Rightarrow> (\<exists>key d. findDataStructure (JObj kvs) = Some (key, d, False)))"
    by (auto simp: findDataStructure_def split: option.splits)
  have d: "(\<exists>key d. findDataStructure (JObj kvs) = Some (key, d, True))
       = (findTimeSeries (JObj kvs) \<noteq> None)"
    using c by (cases "findTimeSeries (JObj kvs)") auto
  show ?thesis using a b c d by blast
qed

text \<open>
  Claim C7, witness: a payload with the key \<open>Global Quote\<close> before the key
  \<open>Time Series (Daily)\<close> is classified as the time series.
\<close>

theorem timeSeries_classification_witness:
  "findTimeSeries (JObj quoteAndSeries) = Some (''Time Series (Daily)'', exampleSeriesValue)
   \<and> findDataStructure (JObj quoteAndSeries) = Some (''Time Series (Daily)'', exampleSeriesValue, True)"
proof -
  have q: "\<not> acceptsAsTimeSeries quoteAndSeries ''Global Quote''"
    by (simp add: acceptsAsTimeSeries_def not_matches_quote)
  have t: "acceptsAsTimeSeries quoteAndSeries ''Time Series (Daily)''"
    by (simp add: acceptsAsTimeSeries_def matches_daily_series quoteAndSeries_def
        exampleSeriesValue_def firstKeyIsDate_def dateLike_first)
  have f: "find (acceptsAsTimeSeries quoteAndSeries) (map fst quoteAndSeries)
           = Some ''Time Series (Daily)''"
    using q t by (simp add: quoteAndSeries_def)
  have o: "ownOrUndefined (JObj quoteAndSeries) ''Time Series (Daily)'' = exampleSeriesValue"
    by (simp add: ownOrUndefined_def quoteAndSeries_def)
  have a: "findTimeSeries (JObj quoteAndSeries) = Some (''Time Series (Daily)'', exampleSeriesValue)"
    using timeSeries_classification [of quoteAndSeries] f o by simp
  have "(case findTimeSeries (JObj quoteAndSeries) of
           Some (key, d) \<Rightarrow> findDataStructure (JObj quoteAndSeries) = Some (key, d, True)
         | None \<Rightarrow> (\<exists>key d. findDataStructure (JObj quoteAndSeries) = Some (key, d, False)))"
    using timeSeries_classification [of quoteAndSeries] by blast
  then have "findDataStructure (JObj quoteAndSeries)
             = Some (''Time Series (Daily)'', exampleSeriesValue, True)"
    unfolding a by simp
  then show ?thesis using a by simp
qed

section \<open>The field extractors\<close>




text \<open>
  The fallback of \<open>extractFields\<close> is never reached: \<open>findDataStructure\<close> returns a
  structure that is no time series whenever \<open>findTimeSeries\<close> finds nothing.
\<close>

lemma extractFields_without_fallback:
  "extractFields lc d =
     (case asObject (JSON d) of
        None \<Rightarrow> Inr []
      | Some dataObj \<Rightarrow>
          (case findTimeSeries d of
             Some timeSeries \<Rightarrow> filterValid (extractTimeSeriesFields lc d)
           | None \<Rightarrow> filterValid (extractSimpleFields lc d)))"
  by (auto simp: extractFields_def findDataStructure_def split: option.splits)

text \<open>
  Every field that \<open>extractFields\<close> returns is a non-empty string that is not made of
  digits only.
\<close>

lemma extractFields_valid:
  "extractFields lc d = Inr fs \<Longrightarrow> f \<in> set fs \<Longrightarrow> f \<noteq> [] \<and> \<not> pureDigits f"
  by (auto simp: extractFields_without_fallback filterValid_def validField_def
      split: option.splits sum.splits)

text \<open>
  Claim C9 (an object that is neither a time series nor quote-like is flattened, its
  nested objects contributing their own keys) fails on \<open>{"a": {"b": 1}, "c": 2}\<close>:
  \<open>extractFields\<close> takes the path of \<open>extractSimpleFields\<close>, which drops the nested
  object, and returns \<open>c\<close> alone; the key \<open>b\<close> is not contributed.
\<close>

theorem extractFields_flattening_unreachable:
  "extractFields lc nestedPayload = Inr [''c'']"
proof -
  have t: "findTimeSeries nestedPayload = None"
    by (simp add: nestedPayload_def findTimeSeries_def not_matches_a not_matches_c
        firstKeyIsDate_def not_dateLike_a)
  have s: "findDataStructure nestedPayload = Some (''root'', nestedPayload, False)"
    using t by (simp add: findDataStructure_def) (simp add: nestedPayload_def not_quote_a not_quote_c)
  have "extractSimpleFields lc nestedPayload = Inr [''c'']"
    unfolding extractSimpleFields_def s
    by (simp add: nestedPayload_def hasOwnProperty_builtin pickLeaf_def ownOrUndefined_def
        sortWith_def)
  moreover have "asObject (JSON nestedPayload)
                 = Some (ORecord [(''a'', JObj [(''b'', JNum (Fin 1))]), (''c'', JNum (Fin 2))])"
    by (simp add: nestedPayload_def)
  ultimately show ?thesis
    unfolding extractFields_without_fallback t
    by (simp add: filterValid_def validField_def pureDigits_def isDigit_def)
qed

end
